theory Spec2Isabelle
  imports Complex_Main "HOL-Library.AList"
begin

section \<open>Values, errors and the external collaborators\<close>

text \<open>
  The development embeds \<^verbatim>\<open>libs/core/langchain_core/load/load.py\<close>: the class
  \<^verbatim>\<open>Reviver\<close> (its \<^verbatim>\<open>__init__\<close> and \<^verbatim>\<open>__call__\<close>) and the function \<^verbatim>\<open>load\<close> with
  its nested walker \<^verbatim>\<open>_load\<close>.

  A Python float is kept only as far as the comparison \<^verbatim>\<open>== 1\<close> needs it.
\<close>

datatype pyfloat = Finite rat | PosInf | NegInf | NaN

text \<open>
  The values the walker sees: a parsed JSON tree (\<^verbatim>\<open>None\<close>, \<^verbatim>\<open>bool\<close>, \<^verbatim>\<open>int\<close>,
  \<^verbatim>\<open>float\<close>, \<^verbatim>\<open>str\<close>, \<^verbatim>\<open>list\<close>, \<^verbatim>\<open>dict\<close> with string keys) in which revived
  sub-trees have been replaced by live objects. A live object is opaque (\<open>'o\<close>).
  A \<^verbatim>\<open>dict\<close> is an association list in insertion order; a Python \<^verbatim>\<open>dict\<close> never
  holds a key twice. A \<^verbatim>\<open>str\<close> is the list of its characters.

  \<^verbatim>\<open>loads\<close> hands the same Reviver to \<^verbatim>\<open>json.loads\<close> as its \<^verbatim>\<open>object_hook\<close>; the JSON
  parser is outside the embedded code, and \<^verbatim>\<open>load\<close> is the walk over the parsed tree.
\<close>

datatype 'o pyval =
    VNone
  | VBool bool
  | VInt int
  | VFloat pyfloat
  | VStr string
  | VList "'o pyval list"
  | VDict "(string \<times> 'o pyval) list"
  | VObj 'o

text \<open>
  Every \<^verbatim>\<open>raise\<close> of the source and every exception of an expression it evaluates:
  \<^item> \<open>MissingKey key\<close>: \<^verbatim>\<open>KeyError('Missing key "{key}" in load(secrets_map)')\<close>;
  \<^item> \<open>NotImplementedError value\<close>: the node does not implement serialization;
  \<^item> \<open>InvalidNamespace value\<close>: \<^verbatim>\<open>ValueError(f"Invalid namespace: {value}")\<close>;
  \<^item> \<open>CannotDeserialize key\<close>: \<^verbatim>\<open>ValueError("Trying to deserialize something that
    cannot be deserialized in current version of langchain-core: {key}")\<close>;
  \<^item> \<open>UnpackError\<close>: the \<^verbatim>\<open>ValueError\<close> of a destructuring assignment whose right-hand
    side has the wrong number of items;
  \<^item> \<open>TypeError\<close>, \<open>IndexError\<close>, \<open>KeyError\<close>: raised by the interpreter;
  \<^item> \<open>External msg\<close>: whatever an external collaborator raises.
\<close>

datatype 'o error =
    MissingKey "'o pyval"
  | NotImplementedError "'o pyval"
  | InvalidNamespace "'o pyval"
  | CannotDeserialize "'o pyval list"
  | UnpackError
  | TypeError
  | IndexError
  | KeyError "'o pyval list"
  | External string

text \<open>
  What the source reaches outside itself: \<^verbatim>\<open>os.environ\<close>, \<^verbatim>\<open>importlib.import_module\<close>,
  \<^verbatim>\<open>getattr\<close> on a module, \<^verbatim>\<open>issubclass(cls, Serializable)\<close>, the call \<^verbatim>\<open>cls(**kwargs)\<close>,
  and the protocols of a live object (iteration, hashing, use as \<^verbatim>\<open>**kwargs\<close>). A module
  is \<open>'m\<close>, the result of \<^verbatim>\<open>getattr\<close> is \<open>'c\<close>. A live object compares unequal to every
  \<^verbatim>\<open>int\<close> and \<^verbatim>\<open>str\<close>, as instances of \<^verbatim>\<open>Serializable\<close> do.
\<close>

record ('o, 'm, 'c) world =
  environ :: "string \<rightharpoonup> string"
  import_module :: "string \<Rightarrow> 'o error + 'm"
  getattr :: "'m \<Rightarrow> string \<Rightarrow> 'o error + 'c"
  issubclass_Serializable :: "'c \<Rightarrow> 'o error + bool"
  construct :: "'c \<Rightarrow> (string \<times> 'o pyval) list \<Rightarrow> 'o error + 'o"
  obj_iter :: "'o \<Rightarrow> 'o error + 'o pyval list"
  obj_hashable :: "'o \<Rightarrow> bool"
  obj_kwargs :: "'o \<Rightarrow> 'o error + (string \<times> 'o pyval) list"

text \<open>Sequencing of fallible steps: the first exception ends the computation.\<close>

definition bindE :: "'e + 'a \<Rightarrow> ('a \<Rightarrow> 'e + 'b) \<Rightarrow> 'e + 'b" where
  "bindE m f = (case m of Inl e \<Rightarrow> Inl e | Inr x \<Rightarrow> f x)"

section \<open>Python primitives used by the source\<close>

text \<open>\<^verbatim>\<open>d.get(k, default)\<close>.\<close>

definition py_get :: "(string \<times> 'o pyval) list \<Rightarrow> string \<Rightarrow> 'o pyval \<Rightarrow> 'o pyval" where
  "py_get d k dflt = (case map_of d k of None \<Rightarrow> dflt | Some v \<Rightarrow> v)"

text \<open>\<^verbatim>\<open>v == 1\<close>: true for the int 1, for \<^verbatim>\<open>True\<close> and for the float 1.0.\<close>

fun eq_one :: "'o pyval \<Rightarrow> bool" where
  "eq_one (VInt i) = (i = 1)"
| "eq_one (VBool b) = b"
| "eq_one (VFloat f) = (f = Finite 1)"
| "eq_one _ = False"

text \<open>\<^verbatim>\<open>v in ss\<close> for a list \<open>ss\<close> of strings: only a \<^verbatim>\<open>str\<close> equals a \<^verbatim>\<open>str\<close>.\<close>

fun in_strs :: "'o pyval \<Rightarrow> string list \<Rightarrow> bool" where
  "in_strs (VStr s) ss = (s \<in> set ss)"
| "in_strs _ ss = False"

text \<open>The items an iteration over a value yields; a \<^verbatim>\<open>str\<close> yields its characters, a
  \<^verbatim>\<open>dict\<close> its keys; \<^verbatim>\<open>None\<close>, booleans and numbers are not iterable.\<close>

fun py_iter :: "('o, 'm, 'c) world \<Rightarrow> 'o pyval \<Rightarrow> 'o error + 'o pyval list" where
  "py_iter w (VList xs) = Inr xs"
| "py_iter w (VStr s) = Inr (map (\<lambda>c. VStr [c]) s)"
| "py_iter w (VDict kvs) = Inr (map (\<lambda>kv. VStr (fst kv)) kvs)"
| "py_iter w (VObj ob) = obj_iter w ob"
| "py_iter w _ = Inl TypeError"

text \<open>Whether \<^verbatim>\<open>hash(v)\<close> succeeds: lists and dicts are unhashable.\<close>

fun hashable :: "('o, 'm, 'c) world \<Rightarrow> 'o pyval \<Rightarrow> bool" where
  "hashable w (VList xs) = False"
| "hashable w (VDict kvs) = False"
| "hashable w (VObj ob) = obj_hashable w ob"
| "hashable w _ = True"

text \<open>The strings of a list of values, when every one is a \<^verbatim>\<open>str\<close>.\<close>

fun strs_of :: "'o pyval list \<Rightarrow> string list option" where
  "strs_of [] = Some []"
| "strs_of (VStr s # vs) = (case strs_of vs of None \<Rightarrow> None | Some ss \<Rightarrow> Some (s # ss))"
| "strs_of (_ # vs) = None"

text \<open>
  Lookup of \<^verbatim>\<open>tuple(items)\<close> in a dict whose keys are tuples of strings: hashing the
  tuple hashes every item (\<^verbatim>\<open>TypeError\<close> on an unhashable one); a tuple holding an item
  that is not a \<^verbatim>\<open>str\<close> equals no key.
\<close>

definition tuple_lookup ::
  "('o, 'm, 'c) world \<Rightarrow> (string list \<times> 'v) list \<Rightarrow> 'o pyval list \<Rightarrow> 'o error + 'v option" where
  "tuple_lookup w d key =
     (if \<not> list_all (hashable w) key then Inl TypeError
      else Inr (case strs_of key of None \<Rightarrow> None | Some ks \<Rightarrow> map_of d ks))"

text \<open>Lookup of a value in a dict whose keys are strings.\<close>

definition str_lookup ::
  "('o, 'm, 'c) world \<Rightarrow> (string \<times> 'v) list \<Rightarrow> 'o pyval \<Rightarrow> 'o error + 'v option" where
  "str_lookup w d key =
     (if \<not> hashable w key then Inl TypeError
      else Inr (case key of VStr k \<Rightarrow> map_of d k | _ \<Rightarrow> None))"

text \<open>\<^verbatim>\<open>".".join(ss)\<close>.\<close>

fun join_dot :: "string list \<Rightarrow> string" where
  "join_dot [] = []"
| "join_dot [s] = s"
| "join_dot (s # t # ss) = s @ ''.'' @ join_dot (t # ss)"

text \<open>\<^verbatim>\<open>{**a, **b}\<close>: the entries of \<open>b\<close> are stored into a copy of \<open>a\<close>, in order.\<close>

definition dict_merge :: "('k \<times> 'v) list \<Rightarrow> ('k \<times> 'v) list \<Rightarrow> ('k \<times> 'v) list" where
  "dict_merge a b = fold (\<lambda>kv. AList.update (fst kv) (snd kv)) b a"

section \<open>Module constants\<close>

definition DEFAULT_NAMESPACES :: "string list" where
  "DEFAULT_NAMESPACES =
     [''langchain'', ''langchain_core'', ''langchain_community'',
      ''langchain_anthropic'', ''langchain_groq'', ''langchain_google_genai'']"

text \<open>
  The four tables imported from \<^verbatim>\<open>langchain_core.load.mapping\<close> are not part of the
  embedded file; they are parameters. The two names that begin with an underscore in the
  source are written without it.
\<close>

record tables =
  SERIALIZABLE_MAPPING :: "(string list \<times> string list) list"
  OLD_CORE_NAMESPACES_MAPPING :: "(string list \<times> string list) list"
  OG_SERIALIZABLE_MAPPING :: "(string list \<times> string list) list"
  JS_SERIALIZABLE_MAPPING :: "(string list \<times> string list) list"

definition ALL_SERIALIZABLE_MAPPINGS :: "tables \<Rightarrow> (string list \<times> string list) list" where
  "ALL_SERIALIZABLE_MAPPINGS t =
     dict_merge (dict_merge (dict_merge (SERIALIZABLE_MAPPING t) (OLD_CORE_NAMESPACES_MAPPING t))
                            (OG_SERIALIZABLE_MAPPING t))
                (JS_SERIALIZABLE_MAPPING t)"

section \<open>The Reviver\<close>

record reviver =
  secrets_from_env :: bool
  secrets_map :: "(string \<times> string) list"
  valid_namespaces :: "string list"
  additional_import_mappings :: "(string list \<times> string list) list"
  import_mappings :: "(string list \<times> string list) list"

text \<open>\<^verbatim>\<open>Reviver.__init__\<close>. An optional argument is an \<open>option\<close>; \<^verbatim>\<open>x or dict()\<close> and
  \<^verbatim>\<open>... if x else ...\<close> test that \<open>x\<close> is neither \<^verbatim>\<open>None\<close> nor empty.\<close>

definition Reviver_init ::
  "tables \<Rightarrow> (string \<times> string) list option \<Rightarrow> string list option \<Rightarrow> bool \<Rightarrow>
   (string list \<times> string list) list option \<Rightarrow> reviver" where
  "Reviver_init t secrets_map_arg valid_namespaces_arg secrets_from_env_arg aim_arg =
     (let aim = (case aim_arg of None \<Rightarrow> [] | Some m \<Rightarrow> if m = [] then [] else m) in
      \<lparr> secrets_from_env = secrets_from_env_arg,
        secrets_map = (case secrets_map_arg of None \<Rightarrow> [] | Some m \<Rightarrow> if m = [] then [] else m),
        valid_namespaces =
          (case valid_namespaces_arg of
             None \<Rightarrow> DEFAULT_NAMESPACES
           | Some ns \<Rightarrow> if ns = [] then DEFAULT_NAMESPACES else DEFAULT_NAMESPACES @ ns),
        additional_import_mappings = aim,
        import_mappings =
          (if aim \<noteq> [] then dict_merge (ALL_SERIALIZABLE_MAPPINGS t) aim
           else ALL_SERIALIZABLE_MAPPINGS t) \<rparr>)"

text \<open>Lines 82 to 88: the body of the secret branch, given \<^verbatim>\<open>value["id"]\<close>.\<close>

definition revive_secret ::
  "('o, 'm, 'c) world \<Rightarrow> reviver \<Rightarrow> 'o pyval \<Rightarrow> 'o error + 'o pyval" where
  "revive_secret w self idv =
     bindE (py_iter w idv) (\<lambda>items.
       case items of
         [key] \<Rightarrow>
           bindE (str_lookup w (secrets_map self) key) (\<lambda>found.
             case found of
               Some s \<Rightarrow> Inr (VStr s)
             | None \<Rightarrow>
                 if \<not> secrets_from_env self then Inl (MissingKey key)
                 else (case key of
                         VStr k \<Rightarrow>
                           (case environ w k of
                              Some v \<Rightarrow> if v \<noteq> [] then Inr (VStr v) else Inl (MissingKey key)
                            | None \<Rightarrow> Inl (MissingKey key))
                       | _ \<Rightarrow> Inl TypeError))
       | _ \<Rightarrow> Inl UnpackError)"

text \<open>Lines 105 to 139: from \<^verbatim>\<open>value["id"]\<close> to the class \<^verbatim>\<open>cls\<close>.\<close>

definition resolve_class ::
  "('o, 'm, 'c) world \<Rightarrow> reviver \<Rightarrow> (string \<times> 'o pyval) list \<Rightarrow> 'o pyval \<Rightarrow> 'o error + 'c" where
  "resolve_class w self val idv =
     bindE (py_iter w idv) (\<lambda>items.
       if items = [] then Inl UnpackError
       else
         let namespace = butlast items; name = last items in
         if namespace = [] then Inl IndexError
         else if \<not> in_strs (hd namespace) (valid_namespaces self)
           then Inl (InvalidNamespace (VDict val))
         else if length namespace = 1 \<and> hd namespace = VStr ''langchain''
           then Inl (InvalidNamespace (VDict val))
         else
           let key = namespace @ [name] in
           if in_strs (hd namespace) DEFAULT_NAMESPACES then
             bindE (tuple_lookup w (import_mappings self) key) (\<lambda>found.
               case found of
                 None \<Rightarrow> Inl (CannotDeserialize key)
               | Some import_path \<Rightarrow>
                   if import_path = [] then Inl IndexError
                   else bindE (import_module w (join_dot (butlast import_path)))
                          (\<lambda>md. getattr w md (last import_path)))
           else
             bindE (tuple_lookup w (additional_import_mappings self) key) (\<lambda>found.
               case found of
                 Some _ \<Rightarrow>
                   bindE (tuple_lookup w (import_mappings self) key) (\<lambda>found2.
                     case found2 of
                       None \<Rightarrow> Inl (KeyError key)
                     | Some import_path \<Rightarrow>
                         bindE (import_module w (join_dot (butlast import_path))) (\<lambda>md.
                           if import_path = [] then Inl IndexError
                           else getattr w md (last import_path)))
               | None \<Rightarrow>
                   (case strs_of namespace of
                      None \<Rightarrow> Inl TypeError
                    | Some ns \<Rightarrow>
                        bindE (import_module w (join_dot ns)) (\<lambda>md.
                          case name of
                            VStr n \<Rightarrow> getattr w md n
                          | _ \<Rightarrow> Inl TypeError))))"

text \<open>Lines 141 to 148: the subclass check and the call \<^verbatim>\<open>cls(**kwargs)\<close>.\<close>

definition instantiate ::
  "('o, 'm, 'c) world \<Rightarrow> (string \<times> 'o pyval) list \<Rightarrow> 'c \<Rightarrow> 'o error + 'o pyval" where
  "instantiate w val cls =
     bindE (issubclass_Serializable w cls) (\<lambda>sub.
       if \<not> sub then Inl (InvalidNamespace (VDict val))
       else
         (case py_get val ''kwargs'' (VDict []) of
            VDict kwargs \<Rightarrow> bindE (construct w cls kwargs) (\<lambda>ob. Inr (VObj ob))
          | VObj k \<Rightarrow>
              bindE (obj_kwargs w k) (\<lambda>kwargs.
                bindE (construct w cls kwargs) (\<lambda>ob. Inr (VObj ob)))
          | _ \<Rightarrow> Inl TypeError))"

text \<open>\<^verbatim>\<open>Reviver.__call__\<close>.\<close>

definition Reviver_call ::
  "('o, 'm, 'c) world \<Rightarrow> reviver \<Rightarrow> (string \<times> 'o pyval) list \<Rightarrow> 'o error + 'o pyval" where
  "Reviver_call w self val =
     (if eq_one (py_get val ''lc'' VNone)
         \<and> py_get val ''type'' VNone = VStr ''secret''
         \<and> py_get val ''id'' VNone \<noteq> VNone
      then revive_secret w self (py_get val ''id'' VNone)
      else if eq_one (py_get val ''lc'' VNone)
         \<and> py_get val ''type'' VNone = VStr ''not_implemented''
         \<and> py_get val ''id'' VNone \<noteq> VNone
      then Inl (NotImplementedError (VDict val))
      else if eq_one (py_get val ''lc'' VNone)
         \<and> py_get val ''type'' VNone = VStr ''constructor''
         \<and> py_get val ''id'' VNone \<noteq> VNone
      then bindE (resolve_class w self val (py_get val ''id'' VNone)) (instantiate w val)
      else Inr (VDict val))"

section \<open>The walker\<close>

text \<open>
  The nested function \<^verbatim>\<open>_load\<close> of \<^verbatim>\<open>load\<close>. \<open>load_items\<close> is the dict comprehension
  \<^verbatim>\<open>{k: _load(v) for k, v in obj.items()}\<close>, \<open>load_list\<close> the list comprehension
  \<^verbatim>\<open>[_load(o) for o in obj]\<close>; both evaluate in order and stop at the first exception.
\<close>

fun load_inner ::
    "('o, 'm, 'c) world \<Rightarrow> reviver \<Rightarrow> 'o pyval \<Rightarrow> 'o error + 'o pyval"
  and load_list ::
    "('o, 'm, 'c) world \<Rightarrow> reviver \<Rightarrow> 'o pyval list \<Rightarrow> 'o error + 'o pyval list"
  and load_items ::
    "('o, 'm, 'c) world \<Rightarrow> reviver \<Rightarrow> (string \<times> 'o pyval) list \<Rightarrow>
     'o error + (string \<times> 'o pyval) list" where
  "load_inner w r (VDict kvs) =
     (case load_items w r kvs of Inl e \<Rightarrow> Inl e | Inr loaded_obj \<Rightarrow> Reviver_call w r loaded_obj)"
| "load_inner w r (VList xs) =
     (case load_list w r xs of Inl e \<Rightarrow> Inl e | Inr ys \<Rightarrow> Inr (VList ys))"
| "load_inner w r VNone = Inr VNone"
| "load_inner w r (VBool b) = Inr (VBool b)"
| "load_inner w r (VInt i) = Inr (VInt i)"
| "load_inner w r (VFloat f) = Inr (VFloat f)"
| "load_inner w r (VStr s) = Inr (VStr s)"
| "load_inner w r (VObj ob) = Inr (VObj ob)"
| "load_list w r [] = Inr []"
| "load_list w r (x # xs) =
     (case load_inner w r x of
        Inl e \<Rightarrow> Inl e
      | Inr y \<Rightarrow> (case load_list w r xs of Inl e \<Rightarrow> Inl e | Inr ys \<Rightarrow> Inr (y # ys)))"
| "load_items w r [] = Inr []"
| "load_items w r ((k, v) # kvs) =
     (case load_inner w r v of
        Inl e \<Rightarrow> Inl e
      | Inr y \<Rightarrow> (case load_items w r kvs of Inl e \<Rightarrow> Inl e | Inr ys \<Rightarrow> Inr ((k, y) # ys)))"

text \<open>The function \<^verbatim>\<open>load\<close>.\<close>

definition load ::
  "tables \<Rightarrow> ('o, 'm, 'c) world \<Rightarrow> 'o pyval \<Rightarrow> (string \<times> string) list option \<Rightarrow>
   string list option \<Rightarrow> bool \<Rightarrow> (string list \<times> string list) list option \<Rightarrow>
   'o error + 'o pyval" where
  "load t w obj secrets_map_arg valid_namespaces_arg secrets_from_env_arg aim_arg =
     load_inner w (Reviver_init t secrets_map_arg valid_namespaces_arg secrets_from_env_arg aim_arg) obj"

section \<open>Predicates used in the statements\<close>

text \<open>
  The guard shared by the three dispatch branches of \<^verbatim>\<open>Reviver.__call__\<close> (lines 77 to 81,
  90 to 94 and 100 to 104): \<open>lc_type val ty\<close> is
  \<^verbatim>\<open>value.get("lc", None) == 1 and value.get("type", None) == ty\<close>, and \<open>is_node ty val\<close>
  adds \<^verbatim>\<open>value.get("id", None) is not None\<close>.
\<close>

definition lc_type :: "(string \<times> 'o pyval) list \<Rightarrow> string \<Rightarrow> bool" where
  "lc_type val ty = (eq_one (py_get val ''lc'' VNone) \<and> py_get val ''type'' VNone = VStr ty)"

definition is_node :: "string \<Rightarrow> (string \<times> 'o pyval) list \<Rightarrow> bool" where
  "is_node ty val = (lc_type val ty \<and> py_get val ''id'' VNone \<noteq> VNone)"

text \<open>A mapping that one of the three branches takes.\<close>

definition special :: "(string \<times> 'o pyval) list \<Rightarrow> bool" where
  "special val =
     (is_node ''secret'' val \<or> is_node ''not_implemented'' val \<or> is_node ''constructor'' val)"

text \<open>
  \<open>any_dict P t\<close>: some mapping of the tree \<open>t\<close>, at any depth (the inside of a live
  object is not part of the tree), satisfies \<open>P\<close>.
\<close>

fun any_dict :: "((string \<times> 'o pyval) list \<Rightarrow> bool) \<Rightarrow> 'o pyval \<Rightarrow> bool"
  and any_dict_list :: "((string \<times> 'o pyval) list \<Rightarrow> bool) \<Rightarrow> 'o pyval list \<Rightarrow> bool"
  and any_dict_items ::
    "((string \<times> 'o pyval) list \<Rightarrow> bool) \<Rightarrow> (string \<times> 'o pyval) list \<Rightarrow> bool" where
  "any_dict P (VDict kvs) = (P kvs \<or> any_dict_items P kvs)"
| "any_dict P (VList xs) = any_dict_list P xs"
| "any_dict P VNone = False"
| "any_dict P (VBool b) = False"
| "any_dict P (VInt i) = False"
| "any_dict P (VFloat f) = False"
| "any_dict P (VStr s) = False"
| "any_dict P (VObj ob) = False"
| "any_dict_list P [] = False"
| "any_dict_list P (x # xs) = (any_dict P x \<or> any_dict_list P xs)"
| "any_dict_items P [] = False"
| "any_dict_items P ((k, v) # kvs) = (any_dict P v \<or> any_dict_items P kvs)"

text \<open>The mapping has an \<^verbatim>\<open>lc\<close> field equal to 1.\<close>

definition lc_is_one :: "(string \<times> 'o pyval) list \<Rightarrow> bool" where
  "lc_is_one val = eq_one (py_get val ''lc'' VNone)"


section \<open>A concrete world for the instances\<close>

text \<open>
  A live object records the class it was built from and the named arguments it was
  built with. Modules and classes are their dotted names; every import succeeds, every
  class is a subclass of \<^verbatim>\<open>Serializable\<close>, every construction succeeds.
\<close>

datatype live = Live string "(string \<times> live pyval) list"

definition sample_world :: "(live, string, string) world" where
  "sample_world =
     \<lparr> environ = [''API_KEY'' \<mapsto> ''from-env'', ''EMPTY'' \<mapsto> ''''],
       import_module = (\<lambda>path. Inr path),
       getattr = (\<lambda>md name. Inr (md @ '':'' @ name)),
       issubclass_Serializable = (\<lambda>cls. Inr True),
       construct = (\<lambda>cls kwargs. Inr (Live cls kwargs)),
       obj_iter = (\<lambda>ob. Inl TypeError),
       obj_hashable = (\<lambda>ob. False),
       obj_kwargs = (\<lambda>ob. Inl TypeError) \<rparr>"

definition sample_tables :: tables where
  "sample_tables =
     \<lparr> SERIALIZABLE_MAPPING =
         [([''langchain'', ''prompts'', ''prompt'', ''PromptTemplate''],
           [''langchain_core'', ''prompts'', ''prompt'', ''PromptTemplate''])],
       OLD_CORE_NAMESPACES_MAPPING =
         [([''langchain_core'', ''prompts'', ''prompt'', ''PromptTemplate''],
           [''langchain_core'', ''prompts'', ''prompt'', ''PromptTemplate''])],
       OG_SERIALIZABLE_MAPPING = [],
       JS_SERIALIZABLE_MAPPING = [] \<rparr>"

section \<open>Basic facts\<close>

lemma eq_one_iff: "eq_one v \<longleftrightarrow> v = VInt 1 \<or> v = VBool True \<or> v = VFloat (Finite 1)"
  by (cases v) auto

lemma map_of_dict_merge: "map_of (dict_merge a b) = map_of a ++ map_of (rev b)"
  unfolding dict_merge_def
  by (induction b arbitrary: a) (auto simp: update_conv')

lemma Reviver_call_secret:
  "is_node ''secret'' val \<Longrightarrow> Reviver_call w r val = revive_secret w r (py_get val ''id'' VNone)"
  by (simp add: Reviver_call_def is_node_def lc_type_def)

lemma Reviver_call_not_implemented:
  "is_node ''not_implemented'' val \<Longrightarrow> Reviver_call w r val = Inl (NotImplementedError (VDict val))"
  by (simp add: Reviver_call_def is_node_def lc_type_def)

lemma Reviver_call_constructor:
  "is_node ''constructor'' val \<Longrightarrow>
   Reviver_call w r val = bindE (resolve_class w r val (py_get val ''id'' VNone)) (instantiate w val)"
  by (simp add: Reviver_call_def is_node_def lc_type_def)

lemma Reviver_call_other:
  "\<not> special val \<Longrightarrow> Reviver_call w r val = Inr (VDict val)"
  by (auto simp add: Reviver_call_def special_def is_node_def lc_type_def)

lemma is_node_id:
  "lc_type val ty \<Longrightarrow> map_of val ''id'' = Some v \<Longrightarrow> v \<noteq> VNone \<Longrightarrow>
   is_node ty val \<and> py_get val ''id'' VNone = v"
  by (simp add: is_node_def py_get_def)

lemma revive_secret_found:
  "map_of (secrets_map r) K = Some s \<Longrightarrow> revive_secret w r (VList [VStr K]) = Inr (VStr s)"
  by (simp add: revive_secret_def bindE_def str_lookup_def)

lemma revive_secret_absent:
  "map_of (secrets_map r) K = None \<Longrightarrow> revive_secret w r (VList [VStr K]) =
     (if secrets_from_env r then
        (case environ w K of
           Some v \<Rightarrow> if v \<noteq> [] then Inr (VStr v) else Inl (MissingKey (VStr K))
         | None \<Rightarrow> Inl (MissingKey (VStr K)))
      else Inl (MissingKey (VStr K)))"
  by (simp add: revive_secret_def bindE_def str_lookup_def)

lemma Reviver_init_fields:
  "secrets_map (Reviver_init t (Some sm) vn sfe aim) = sm"
  "secrets_map (Reviver_init t None vn sfe aim) = []"
  "secrets_from_env (Reviver_init t smo vn sfe aim) = sfe"
  by (simp_all add: Reviver_init_def Let_def)

lemma load_secret_node:
  "load_inner w r (VDict [(''lc'', VInt 1), (''type'', VStr ''secret''), (''id'', VList [VStr K])])
     = revive_secret w r (VList [VStr K])"
  by (simp add: Reviver_call_def py_get_def)

section \<open>Secrets\<close>

text \<open>
  C1. A secret node \<^verbatim>\<open>{lc: 1, type: "secret", id: [K]}\<close> whose key \<open>K\<close> is in the secrets
  map revives to the map's value, in every world: the result is the same when the
  environment is replaced by any other one, so the environment plays no part. This holds
  for the Reviver on any mapping of that kind and for \<^verbatim>\<open>load\<close> on the node.
\<close>

theorem secret_map_precedence:
  assumes "lc_type val ''secret''" and "map_of val ''id'' = Some (VList [VStr K])"
    and "map_of sm K = Some s" and "secrets_map r = sm"
  shows "Reviver_call w r val = Inr (VStr s)
       \<and> Reviver_call (w\<lparr>environ := env\<rparr>) r val = Reviver_call w r val
       \<and> load t (w\<lparr>environ := env\<rparr>)
           (VDict [(''lc'', VInt 1), (''type'', VStr ''secret''), (''id'', VList [VStr K])])
           (Some sm) vn sfe aim = Inr (VStr s)"
proof -
  have n: "is_node ''secret'' val" "py_get val ''id'' VNone = VList [VStr K]"
    using is_node_id[OF assms(1,2)] by simp_all
  have a: "\<And>w'::('a, 'b, 'c) world. Reviver_call w' r val = Inr (VStr s)"
    using n assms(3,4) by (simp add: Reviver_call_secret revive_secret_found)
  have b: "load t (w\<lparr>environ := env\<rparr>)
           (VDict [(''lc'', VInt 1), (''type'', VStr ''secret''), (''id'', VList [VStr K])])
           (Some sm) vn sfe aim = Inr (VStr s)"
    unfolding load_def load_secret_node
    using assms(3) by (simp add: revive_secret_found Reviver_init_fields)
  show ?thesis using a b by simp
qed

theorem secret_map_precedence_witness:
  "Reviver_call sample_world
      (Reviver_init sample_tables (Some [(''API_KEY'', ''from-map'')]) None True None)
      [(''lc'', VInt 1), (''type'', VStr ''secret''), (''id'', VList [VStr ''API_KEY''])]
     = Inr (VStr ''from-map'')
   \<and> environ sample_world ''API_KEY'' = Some ''from-env''
   \<and> load sample_tables (sample_world\<lparr>environ := Map.empty\<rparr>)
           (VDict [(''lc'', VInt 1), (''type'', VStr ''secret''), (''id'', VList [VStr ''API_KEY''])])
           (Some [(''API_KEY'', ''from-map'')]) None True None = Inr (VStr ''from-map'')"
  using secret_map_precedence
       [of "[(''lc'', VInt 1), (''type'', VStr ''secret''), (''id'', VList [VStr ''API_KEY''])]"
       "''API_KEY''" "[(''API_KEY'', ''from-map'')]" "''from-map''"
       "Reviver_init sample_tables (Some [(''API_KEY'', ''from-map'')]) None True None"
       sample_world Map.empty sample_tables None True None]
  by (simp add: lc_type_def py_get_def sample_world_def Reviver_init_fields)

text \<open>
  C6. A secret node \<^verbatim>\<open>{lc: 1, type: "secret", id: [K]}\<close> whose key \<open>K\<close> is not in the
  secrets map: when \<^verbatim>\<open>secrets_from_env\<close> is set and the environment binds \<open>K\<close> to a
  non-empty string \<open>v\<close>, the Reviver returns \<open>v\<close>; when \<^verbatim>\<open>secrets_from_env\<close> is not set,
  or \<open>K\<close> is unbound, or bound to the empty string, it raises the \<^verbatim>\<open>KeyError\<close> that names
  \<open>K\<close>. \<^verbatim>\<open>_load\<close> on the node gives what the Reviver gives.
\<close>

theorem secret_env_fallback:
  assumes "lc_type val ''secret''" and "map_of val ''id'' = Some (VList [VStr K])"
    and "map_of (secrets_map r) K = None"
  shows "(secrets_from_env r \<and> environ w K = Some v \<and> v \<noteq> [] \<longrightarrow>
            Reviver_call w r val = Inr (VStr v))
       \<and> (\<not> secrets_from_env r \<or> environ w K = None \<or> environ w K = Some [] \<longrightarrow>
            Reviver_call w r val = Inl (MissingKey (VStr K)))
       \<and> load_inner w r
           (VDict [(''lc'', VInt 1), (''type'', VStr ''secret''), (''id'', VList [VStr K])])
           = Reviver_call w r val"
proof -
  have n: "is_node ''secret'' val" "py_get val ''id'' VNone = VList [VStr K]"
    using is_node_id[OF assms(1,2)] by simp_all
  have a: "Reviver_call w r val = revive_secret w r (VList [VStr K])"
    using n by (simp add: Reviver_call_secret)
  show ?thesis
    unfolding a load_secret_node using assms(3) by (auto simp: revive_secret_absent)
qed

theorem secret_env_fallback_witness:
  "load sample_tables sample_world
      (VDict [(''lc'', VInt 1), (''type'', VStr ''secret''), (''id'', VList [VStr ''API_KEY''])])
      None None True None = Inr (VStr ''from-env'')
   \<and> load sample_tables sample_world
      (VDict [(''lc'', VInt 1), (''type'', VStr ''secret''), (''id'', VList [VStr ''API_KEY''])])
      None None False None = Inl (MissingKey (VStr ''API_KEY''))
   \<and> load sample_tables sample_world
      (VDict [(''lc'', VInt 1), (''type'', VStr ''secret''), (''id'', VList [VStr ''EMPTY''])])
      None None True None = Inl (MissingKey (VStr ''EMPTY''))
   \<and> load sample_tables sample_world
      (VDict [(''lc'', VInt 1), (''type'', VStr ''secret''), (''id'', VList [VStr ''UNSET''])])
      None None True None = Inl (MissingKey (VStr ''UNSET''))"
  using secret_env_fallback
       [of "[(''lc'', VInt 1), (''type'', VStr ''secret''), (''id'', VList [VStr ''API_KEY''])]"
        "''API_KEY''" "Reviver_init sample_tables None None True None" sample_world "''from-env''"]
     secret_env_fallback
       [of "[(''lc'', VInt 1), (''type'', VStr ''secret''), (''id'', VList [VStr ''API_KEY''])]"
        "''API_KEY''" "Reviver_init sample_tables None None False None" sample_world "''from-env''"]
     secret_env_fallback
       [of "[(''lc'', VInt 1), (''type'', VStr ''secret''), (''id'', VList [VStr ''EMPTY''])]"
        "''EMPTY''" "Reviver_init sample_tables None None True None" sample_world "''''"]
     secret_env_fallback
       [of "[(''lc'', VInt 1), (''type'', VStr ''secret''), (''id'', VList [VStr ''UNSET''])]"
        "''UNSET''" "Reviver_init sample_tables None None True None" sample_world "''''"]
  by (simp add: lc_type_def py_get_def sample_world_def Reviver_init_fields load_def)

lemma revive_secret_result:
  "revive_secret w r idv = Inr v \<Longrightarrow> \<exists>s. v = VStr s"
  by (auto simp: revive_secret_def bindE_def split: sum.splits list.splits option.splits if_splits pyval.splits)

lemma instantiate_result:
  "instantiate w val cls = Inr v \<Longrightarrow> \<exists>ob. v = VObj ob"
  by (auto simp: instantiate_def bindE_def split: sum.splits if_splits pyval.splits)

lemma Reviver_call_result:
  assumes "Reviver_call w r val = Inr v"
  shows "(\<exists>s. v = VStr s) \<or> (\<exists>ob. v = VObj ob) \<or> (v = VDict val \<and> \<not> special val)"
proof (cases "special val")
  case False
  then show ?thesis using assms by (simp add: Reviver_call_other)
next
  case True
  then consider "is_node ''secret'' val" | "is_node ''not_implemented'' val" | "is_node ''constructor'' val"
    by (auto simp: special_def)
  then show ?thesis
  proof cases
    case 1
    then show ?thesis using assms revive_secret_result by (fastforce simp: Reviver_call_secret)
  next
    case 2
    then show ?thesis using assms by (simp add: Reviver_call_not_implemented)
  next
    case 3
    then show ?thesis using assms instantiate_result
      by (fastforce simp: Reviver_call_constructor bindE_def split: sum.splits)
  qed
qed

section \<open>The guard on the id field\<close>

text \<open>
  C10. A mapping with no \<^verbatim>\<open>id\<close> field, or whose \<^verbatim>\<open>id\<close> is \<^verbatim>\<open>None\<close>, is returned unchanged
  by the Reviver, whatever its \<^verbatim>\<open>lc\<close> and \<^verbatim>\<open>type\<close> fields are (so also when \<^verbatim>\<open>lc\<close> is 1 and
  \<^verbatim>\<open>type\<close> is \<^verbatim>\<open>secret\<close>, \<^verbatim>\<open>not_implemented\<close> or \<^verbatim>\<open>constructor\<close>); and a mapping that one
  of the three branches takes, which needs a non-null \<^verbatim>\<open>id\<close>, is never returned unchanged.
\<close>

theorem id_required:
  "(map_of val ''id'' = None \<or> map_of val ''id'' = Some VNone \<longrightarrow>
      Reviver_call w r val = Inr (VDict val))
   \<and> (special val \<longrightarrow> Reviver_call w r val \<noteq> Inr (VDict val))"
proof -
  have a: "map_of val ''id'' = None \<or> map_of val ''id'' = Some VNone \<Longrightarrow> \<not> special val"
    by (auto simp: special_def is_node_def py_get_def)
  have b: "special val \<Longrightarrow> Reviver_call w r val \<noteq> Inr (VDict val)"
    using Reviver_call_result[of w r val "VDict val"] by auto
  show ?thesis using a b by (auto simp: Reviver_call_other)
qed

theorem id_required_witness:
  "Reviver_call sample_world (Reviver_init sample_tables None None True None)
      [(''lc'', VInt 1), (''type'', VStr ''secret'')]
     = Inr (VDict [(''lc'', VInt 1), (''type'', VStr ''secret'')])
   \<and> Reviver_call sample_world (Reviver_init sample_tables None None True None)
      [(''lc'', VInt 1), (''type'', VStr ''not_implemented''), (''id'', VNone)]
     = Inr (VDict [(''lc'', VInt 1), (''type'', VStr ''not_implemented''), (''id'', VNone)])
   \<and> Reviver_call sample_world (Reviver_init sample_tables None None True None)
      [(''lc'', VInt 1), (''type'', VStr ''constructor''), (''kwargs'', VDict [])]
     = Inr (VDict [(''lc'', VInt 1), (''type'', VStr ''constructor''), (''kwargs'', VDict [])])
   \<and> Reviver_call sample_world (Reviver_init sample_tables None None True None)
      [(''lc'', VInt 1), (''type'', VStr ''not_implemented''), (''id'', VList [VStr ''x''])]
     \<noteq> Inr (VDict [(''lc'', VInt 1), (''type'', VStr ''not_implemented''), (''id'', VList [VStr ''x''])])"
  using id_required[of "[(''lc'', VInt 1), (''type'', VStr ''secret'')]"
          sample_world "Reviver_init sample_tables None None True None"]
        id_required[of "[(''lc'', VInt 1), (''type'', VStr ''not_implemented''), (''id'', VNone)]"
          sample_world "Reviver_init sample_tables None None True None"]
        id_required[of "[(''lc'', VInt 1), (''type'', VStr ''constructor''), (''kwargs'', VDict [])]"
          sample_world "Reviver_init sample_tables None None True None"]
        id_required[of "[(''lc'', VInt 1), (''type'', VStr ''not_implemented''), (''id'', VList [VStr ''x''])]"
          sample_world "Reviver_init sample_tables None None True None"]
  by (simp add: special_def is_node_def lc_type_def py_get_def)

section \<open>Constructor nodes\<close>

lemma strs_of_map_VStr: "strs_of (map VStr ss) = Some ss"
  by (induction ss) simp_all

lemma hashable_map_VStr: "list_all (hashable w) (map VStr ss)"
  by (induction ss) simp_all

lemma tuple_lookup_strs: "tuple_lookup w d (map VStr ss) = Inr (map_of d ss)"
  by (simp add: tuple_lookup_def strs_of_map_VStr hashable_map_VStr)

lemma DEFAULT_valid: "set DEFAULT_NAMESPACES \<subseteq> set (valid_namespaces (Reviver_init t sm vn sfe aim))"
  by (auto simp: Reviver_init_def Let_def split: option.splits)

lemma langchain_DEFAULT: "''langchain'' \<in> set DEFAULT_NAMESPACES"
  by (simp add: DEFAULT_NAMESPACES_def)

lemma resolve_class_strs:
  assumes "ns \<noteq> []"
  shows "resolve_class w r val (VList (map VStr (ns @ [nm]))) =
    (if hd ns \<notin> set (valid_namespaces r) then Inl (InvalidNamespace (VDict val))
     else if ns = [''langchain''] then Inl (InvalidNamespace (VDict val))
     else if hd ns \<in> set DEFAULT_NAMESPACES then
       (case map_of (import_mappings r) (ns @ [nm]) of
          None \<Rightarrow> Inl (CannotDeserialize (map VStr (ns @ [nm])))
        | Some p \<Rightarrow>
            if p = [] then Inl IndexError
            else bindE (import_module w (join_dot (butlast p))) (\<lambda>md. getattr w md (last p)))
     else
       (case map_of (additional_import_mappings r) (ns @ [nm]) of
          Some q \<Rightarrow>
            (case map_of (import_mappings r) (ns @ [nm]) of
               None \<Rightarrow> Inl (KeyError (map VStr (ns @ [nm])))
             | Some p \<Rightarrow>
                 bindE (import_module w (join_dot (butlast p))) (\<lambda>md.
                   if p = [] then Inl IndexError else getattr w md (last p)))
        | None \<Rightarrow> bindE (import_module w (join_dot ns)) (\<lambda>md. getattr w md nm)))"
proof -
  have b: "butlast (map VStr ns @ [VStr nm]) = map VStr ns" "last (map VStr ns @ [VStr nm]) = VStr nm"
    by simp_all
  have h: "hd (map VStr ns) = (VStr (hd ns) :: 'a pyval)" using assms by (simp add: hd_map)
  have l: "(length ns = 1 \<and> hd ns = ''langchain'') = (ns = [''langchain''])"
    by (cases ns) auto
  have k: "map VStr ns @ [VStr nm] = (map VStr (ns @ [nm]) :: 'a pyval list)" by simp
  show ?thesis
    unfolding resolve_class_def
    apply (simp only: py_iter.simps bindE_def sum.case map_append list.map b Let_def h in_strs.simps)
    apply (simp only: k tuple_lookup_strs strs_of_map_VStr)
    using assms l
    apply (simp add: bindE_def split: option.splits sum.splits)
    done
qed

lemma load_constructor_node:
  "load_inner w r (VDict [(''lc'', VInt 1), (''type'', VStr ''constructor''), (''id'', VList (map VStr ss))])
     = Reviver_call w r [(''lc'', VInt 1), (''type'', VStr ''constructor''), (''id'', VList (map VStr ss))]"
proof -
  have "load_list w r (map VStr ss) = Inr (map VStr ss)" by (induction ss) simp_all
  then show ?thesis by simp
qed

lemma resolve_class_bare_root:
  "resolve_class w (Reviver_init t sm vn sfe aim) val (VList [VStr ''langchain'', name])
     = Inl (InvalidNamespace (VDict val))"
  using DEFAULT_valid[of t sm vn sfe aim] langchain_DEFAULT
  by (auto simp: resolve_class_def bindE_def)

text \<open>
  C5. A constructor node whose namespace is the single segment \<^verbatim>\<open>langchain\<close> (its \<^verbatim>\<open>id\<close>
  is \<^verbatim>\<open>["langchain", name]\<close>) fails with the \<^verbatim>\<open>ValueError\<close> "Invalid namespace", for every
  Reviver that \<^verbatim>\<open>__init__\<close> builds: whatever namespaces and import mappings the caller adds.
\<close>

theorem bare_root_rejected:
  assumes "lc_type val ''constructor''"
    and "map_of val ''id'' = Some (VList [VStr ''langchain'', name])"
  shows "Reviver_call w (Reviver_init t sm vn sfe aim) val = Inl (InvalidNamespace (VDict val))
       \<and> load t w
           (VDict [(''lc'', VInt 1), (''type'', VStr ''constructor''),
                   (''id'', VList [VStr ''langchain'', VStr nm])]) sm vn sfe aim
         = Inl (InvalidNamespace
             (VDict [(''lc'', VInt 1), (''type'', VStr ''constructor''),
                     (''id'', VList [VStr ''langchain'', VStr nm])]))"
proof -
  have n: "is_node ''constructor'' val" "py_get val ''id'' VNone = VList [VStr ''langchain'', name]"
    using is_node_id[OF assms(1,2)] by simp_all
  have a: "Reviver_call w (Reviver_init t sm vn sfe aim) val = Inl (InvalidNamespace (VDict val))"
    using n by (simp add: Reviver_call_constructor resolve_class_bare_root bindE_def)
  let ?node = "[(''lc'', VInt 1), (''type'', VStr ''constructor''),
                (''id'', VList [VStr ''langchain'', VStr nm])] :: (string \<times> 'a pyval) list"
  have m: "is_node ''constructor'' ?node" "py_get ?node ''id'' VNone = VList [VStr ''langchain'', VStr nm]"
    by (simp_all add: is_node_def lc_type_def py_get_def)
  have b: "load t w (VDict ?node) sm vn sfe aim = Inl (InvalidNamespace (VDict ?node))"
    unfolding load_def using load_constructor_node[of w _ "[''langchain'', nm]"] m
    by (simp add: Reviver_call_constructor resolve_class_bare_root bindE_def)
  show ?thesis using a b by simp
qed

theorem bare_root_rejected_witness:
  "Reviver_call sample_world (Reviver_init sample_tables None (Some [''langchain'']) True
       (Some [([''langchain'', ''Foo''], [''pkg'', ''Foo''])]))
     [(''lc'', VInt 1), (''type'', VStr ''constructor''),
      (''id'', VList [VStr ''langchain'', VStr ''Foo'']), (''kwargs'', VDict [])]
   = Inl (InvalidNamespace (VDict
     [(''lc'', VInt 1), (''type'', VStr ''constructor''),
      (''id'', VList [VStr ''langchain'', VStr ''Foo'']), (''kwargs'', VDict [])]))"
  using bare_root_rejected[of
     "[(''lc'', VInt 1), (''type'', VStr ''constructor''),
      (''id'', VList [VStr ''langchain'', VStr ''Foo'']), (''kwargs'', VDict [])]"
     "VStr ''Foo''" sample_world sample_tables None "Some [''langchain'']" True
     "Some [([''langchain'', ''Foo''], [''pkg'', ''Foo''])]"]
  by (simp add: lc_type_def py_get_def)

text \<open>
  C3. On a constructor node whose \<^verbatim>\<open>id\<close> has exactly one element the namespace is empty,
  and \<^verbatim>\<open>namespace[0]\<close> on line 107 raises \<^verbatim>\<open>IndexError\<close>: \<^verbatim>\<open>load\<close> fails with that error,
  not with the \<^verbatim>\<open>ValueError\<close> "Invalid namespace" of lines 108 and 112.
\<close>

theorem empty_namespace_index_error:
  "load t w (VDict [(''lc'', VInt 1), (''type'', VStr ''constructor''), (''id'', VList [VStr nm])])
     sm vn sfe aim = Inl IndexError"
proof -
  let ?node = "[(''lc'', VInt 1), (''type'', VStr ''constructor''), (''id'', VList [VStr nm])]
                 :: (string \<times> 'a pyval) list"
  have m: "is_node ''constructor'' ?node" "py_get ?node ''id'' VNone = VList [VStr nm]"
    by (simp_all add: is_node_def lc_type_def py_get_def)
  have "resolve_class w r ?node (VList [VStr nm]) = Inl IndexError" for r
    by (simp add: resolve_class_def bindE_def)
  then show ?thesis
    unfolding load_def using load_constructor_node[of w _ "[nm]"] m
    by (simp add: Reviver_call_constructor bindE_def)
qed

lemma map_of_rev_distinct: "distinct (map fst xs) \<Longrightarrow> map_of (rev xs) = map_of xs"
  by (induction xs) (auto simp: map_add_def fun_eq_iff split: option.splits dest: map_of_SomeD weak_map_of_SomeI intro: rev_image_eqI)

lemma import_mappings_override:
  assumes "distinct (map fst aim)" and "map_of aim key = Some p"
  shows "map_of (import_mappings (Reviver_init t sm vn sfe (Some aim))) key = Some p"
proof -
  have ne: "aim \<noteq> []" using assms(2) by auto
  have "import_mappings (Reviver_init t sm vn sfe (Some aim)) = dict_merge (ALL_SERIALIZABLE_MAPPINGS t) aim"
    using ne by (simp add: Reviver_init_def Let_def)
  then show ?thesis
    using assms by (simp add: map_of_dict_merge map_of_rev_distinct map_add_def)
qed

text \<open>
  C7, as amended. A constructor node whose \<^verbatim>\<open>id\<close> is a list of strings with a non-empty
  namespace, whose first namespace segment is in \<^verbatim>\<open>DEFAULT_NAMESPACES\<close>, whose namespace is
  not the single segment \<^verbatim>\<open>langchain\<close>, and whose key has no entry in
  \<^verbatim>\<open>self.import_mappings\<close>, fails with the \<^verbatim>\<open>ValueError\<close> "Trying to deserialize something
  that cannot be deserialized"; the result is the same whatever importing, attribute lookup,
  the subclass test and construction would do.
\<close>

theorem unsupported_version:
  assumes "lc_type val ''constructor''"
    and "map_of val ''id'' = Some (VList (map VStr (ns @ [nm])))"
    and "ns \<noteq> []" and "hd ns \<in> set DEFAULT_NAMESPACES" and "ns \<noteq> [''langchain'']"
    and "map_of (import_mappings (Reviver_init t sm vn sfe aim)) (ns @ [nm]) = None"
  shows "Reviver_call w (Reviver_init t sm vn sfe aim) val
           = Inl (CannotDeserialize (map VStr (ns @ [nm])))
       \<and> Reviver_call (w\<lparr>import_module := im, getattr := ga, issubclass_Serializable := sc,
                          construct := co\<rparr>) (Reviver_init t sm vn sfe aim) val
           = Reviver_call w (Reviver_init t sm vn sfe aim) val"
proof -
  have n: "is_node ''constructor'' val" "py_get val ''id'' VNone = VList (map VStr (ns @ [nm]))"
    using is_node_id[OF assms(1,2)] by simp_all
  have v: "hd ns \<in> set (valid_namespaces (Reviver_init t sm vn sfe aim))"
    using assms(4) DEFAULT_valid by blast
  have a: "Reviver_call w' (Reviver_init t sm vn sfe aim) val
           = Inl (CannotDeserialize (map VStr (ns @ [nm])))" for w' :: "('a, 'b, 'c) world"
    unfolding Reviver_call_constructor[OF n(1)] n(2) resolve_class_strs[OF assms(3)]
    using v assms(4,5,6) by (simp add: bindE_def)
  show ?thesis by (simp add: a)
qed

theorem unsupported_version_witness:
  "load sample_tables sample_world
     (VDict [(''lc'', VInt 1), (''type'', VStr ''constructor''),
             (''id'', VList [VStr ''langchain_core'', VStr ''nowhere'', VStr ''Gone''])])
     None None True None
   = Inl (CannotDeserialize [VStr ''langchain_core'', VStr ''nowhere'', VStr ''Gone''])"
  using unsupported_version[of
     "[(''lc'', VInt 1), (''type'', VStr ''constructor''),
       (''id'', VList [VStr ''langchain_core'', VStr ''nowhere'', VStr ''Gone''])]"
     "[''langchain_core'', ''nowhere'']" "''Gone''" sample_tables None None True None sample_world]
    load_constructor_node[of sample_world "Reviver_init sample_tables None None True None"
      "[''langchain_core'', ''nowhere'', ''Gone'']"]
  by (simp add: lc_type_def py_get_def load_def DEFAULT_NAMESPACES_def Reviver_init_def
      ALL_SERIALIZABLE_MAPPINGS_def sample_tables_def dict_merge_def)

text \<open>
  The node \<^verbatim>\<open>{lc: 1, type: "constructor", id: ["langchain", "Foo"]}\<close>: its first namespace
  segment is in \<^verbatim>\<open>DEFAULT_NAMESPACES\<close> and its key is in no table, yet the error is
  "Invalid namespace" (line 112 comes before the table lookup of line 118).
\<close>

theorem unsupported_version_counterexample:
  "in_strs (VStr ''langchain'' :: live pyval) DEFAULT_NAMESPACES
   \<and> map_of (import_mappings (Reviver_init sample_tables None None True None))
        [''langchain'', ''Foo''] = None
   \<and> load sample_tables sample_world
       (VDict [(''lc'', VInt 1), (''type'', VStr ''constructor''),
               (''id'', VList [VStr ''langchain'', VStr ''Foo''])])
       None None True None
     = Inl (InvalidNamespace
         (VDict [(''lc'', VInt 1), (''type'', VStr ''constructor''),
                 (''id'', VList [VStr ''langchain'', VStr ''Foo''])]))
   \<and> load sample_tables sample_world
       (VDict [(''lc'', VInt 1), (''type'', VStr ''constructor''),
               (''id'', VList [VStr ''langchain'', VStr ''Foo''])])
       None None True None
     \<noteq> Inl (CannotDeserialize [VStr ''langchain'', VStr ''Foo''])"
proof -
  have a: "in_strs (VStr ''langchain'' :: live pyval) DEFAULT_NAMESPACES"
    by (simp add: DEFAULT_NAMESPACES_def)
  have b: "map_of (import_mappings (Reviver_init sample_tables None None True None))
        [''langchain'', ''Foo''] = None"
    by (simp add: Reviver_init_def ALL_SERIALIZABLE_MAPPINGS_def sample_tables_def dict_merge_def)
  have c: "load sample_tables sample_world
       (VDict [(''lc'', VInt 1), (''type'', VStr ''constructor''),
               (''id'', VList [VStr ''langchain'', VStr ''Foo''])])
       None None True None
     = Inl (InvalidNamespace
         (VDict [(''lc'', VInt 1), (''type'', VStr ''constructor''),
                 (''id'', VList [VStr ''langchain'', VStr ''Foo''])]))"
    by (simp add: load_def Reviver_call_def py_get_def resolve_class_bare_root bindE_def)
  show ?thesis using a b c by simp
qed

text \<open>
  C8. A key of the caller's \<^verbatim>\<open>additional_import_mappings\<close> (a dict: no key twice) is
  mapped by \<^verbatim>\<open>self.import_mappings\<close> to the caller's path, whatever the built-in tables hold
  for it; and a constructor node with that key, a first namespace segment in
  \<^verbatim>\<open>DEFAULT_NAMESPACES\<close> and a namespace that passes the checks of lines 107 to 112 is resolved
  through that path: the module is \<^verbatim>\<open>".".join(path[:-1])\<close> and the class \<^verbatim>\<open>path[-1]\<close>.
\<close>

theorem override_precedence:
  assumes "distinct (map fst aim)" and "map_of aim (ns @ [nm]) = Some p"
  shows "map_of (import_mappings (Reviver_init t sm vn sfe (Some aim))) (ns @ [nm]) = Some p
       \<and> (lc_type val ''constructor'' \<and> map_of val ''id'' = Some (VList (map VStr (ns @ [nm])))
            \<and> ns \<noteq> [] \<and> hd ns \<in> set DEFAULT_NAMESPACES \<and> ns \<noteq> [''langchain''] \<longrightarrow>
          Reviver_call w (Reviver_init t sm vn sfe (Some aim)) val =
            (if p = [] then Inl IndexError
             else bindE (bindE (import_module w (join_dot (butlast p)))
                               (\<lambda>md. getattr w md (last p)))
                        (instantiate w val)))"
proof -
  let ?r = "Reviver_init t sm vn sfe (Some aim)"
  have a: "map_of (import_mappings ?r) (ns @ [nm]) = Some p"
    using assms by (rule import_mappings_override)
  have b: "Reviver_call w ?r val =
            (if p = [] then Inl IndexError
             else bindE (bindE (import_module w (join_dot (butlast p)))
                               (\<lambda>md. getattr w md (last p)))
                        (instantiate w val))"
    if h: "lc_type val ''constructor''" "map_of val ''id'' = Some (VList (map VStr (ns @ [nm])))"
      "ns \<noteq> []" "hd ns \<in> set DEFAULT_NAMESPACES" "ns \<noteq> [''langchain'']"
  proof -
    have n: "is_node ''constructor'' val" "py_get val ''id'' VNone = VList (map VStr (ns @ [nm]))"
      using is_node_id[OF h(1,2)] by simp_all
    have v: "hd ns \<in> set (valid_namespaces ?r)"
      using h(4) DEFAULT_valid by blast
    show ?thesis
      unfolding Reviver_call_constructor[OF n(1)] n(2) resolve_class_strs[OF h(3)]
      using v h(4,5) a by (simp add: bindE_def)
  qed
  show ?thesis using a b by blast
qed

theorem override_precedence_witness:
  "map_of (ALL_SERIALIZABLE_MAPPINGS sample_tables)
      [''langchain'', ''prompts'', ''prompt'', ''PromptTemplate'']
     = Some [''langchain_core'', ''prompts'', ''prompt'', ''PromptTemplate'']
   \<and> map_of (import_mappings (Reviver_init sample_tables None None True
        (Some [([''langchain'', ''prompts'', ''prompt'', ''PromptTemplate''],
                [''my_pkg'', ''prompts'', ''MyPrompt''])])))
      [''langchain'', ''prompts'', ''prompt'', ''PromptTemplate'']
     = Some [''my_pkg'', ''prompts'', ''MyPrompt'']
   \<and> Reviver_call sample_world (Reviver_init sample_tables None None True
        (Some [([''langchain'', ''prompts'', ''prompt'', ''PromptTemplate''],
                [''my_pkg'', ''prompts'', ''MyPrompt''])]))
       [(''lc'', VInt 1), (''type'', VStr ''constructor''),
        (''id'', VList [VStr ''langchain'', VStr ''prompts'', VStr ''prompt'', VStr ''PromptTemplate'']),
        (''kwargs'', VDict [(''template'', VStr ''{x}'')])]
     = Inr (VObj (Live ''my_pkg.prompts:MyPrompt'' [(''template'', VStr ''{x}'')]))"
  using override_precedence[of
      "[([''langchain'', ''prompts'', ''prompt'', ''PromptTemplate''],
                [''my_pkg'', ''prompts'', ''MyPrompt''])]"
      "[''langchain'', ''prompts'', ''prompt'']" "''PromptTemplate''"
      "[''my_pkg'', ''prompts'', ''MyPrompt'']" sample_tables None None True
      "[(''lc'', VInt 1), (''type'', VStr ''constructor''),
        (''id'', VList [VStr ''langchain'', VStr ''prompts'', VStr ''prompt'', VStr ''PromptTemplate'']),
        (''kwargs'', VDict [(''template'', VStr ''{x}'')])]" sample_world]
  by (simp add: lc_type_def py_get_def DEFAULT_NAMESPACES_def bindE_def instantiate_def
        sample_world_def ALL_SERIALIZABLE_MAPPINGS_def sample_tables_def dict_merge_def)

section \<open>The walker: passthrough\<close>

lemma load_items_shape:
  "load_items w r kvs = Inr kvs' \<Longrightarrow>
     map fst kvs' = map fst kvs \<and>
     list_all2 (\<lambda>v v'. load_inner w r v = Inr v') (map snd kvs) (map snd kvs')"
proof (induction kvs arbitrary: kvs')
  case Nil
  then show ?case by simp
next
  case (Cons kv kvs)
  obtain k v where kv: "kv = (k, v)" by (cases kv)
  from Cons.prems kv obtain y ys where
    y: "load_inner w r v = Inr y" and ys: "load_items w r kvs = Inr ys" and e: "kvs' = (k, y) # ys"
    by (auto split: sum.splits)
  from Cons.IH[OF ys] y e kv show ?case by simp
qed

lemma load_list_shape:
  "load_list w r xs = Inr ys \<Longrightarrow> list_all2 (\<lambda>x y. load_inner w r x = Inr y) xs ys"
proof (induction xs arbitrary: ys)
  case Nil
  then show ?case by simp
next
  case (Cons x xs)
  from Cons.prems obtain y zs where
    "load_inner w r x = Inr y" "load_list w r xs = Inr zs" "ys = y # zs"
    by (auto split: sum.splits)
  with Cons.IH show ?case by simp
qed

lemma load_items_lookup:
  "load_items w r kvs = Inr kvs' \<Longrightarrow>
     (case map_of kvs k of
        None \<Rightarrow> map_of kvs' k = None
      | Some v \<Rightarrow> (\<exists>v'. map_of kvs' k = Some v' \<and> load_inner w r v = Inr v'))"
proof (induction kvs arbitrary: kvs')
  case Nil
  then show ?case by simp
next
  case (Cons kv kvs)
  obtain a v where kv: "kv = (a, v)" by (cases kv)
  from Cons.prems kv obtain y ys where
    y: "load_inner w r v = Inr y" and ys: "load_items w r kvs = Inr ys" and e: "kvs' = (a, y) # ys"
    by (auto split: sum.splits)
  from Cons.IH[OF ys] y e kv show ?case by (simp split: option.splits)
qed




lemma passthrough_all:
  "(\<not> any_dict lc_is_one t \<longrightarrow> load_inner w r t = Inr t)"
  "(\<not> any_dict_list lc_is_one xs \<longrightarrow> load_list w r xs = Inr xs)"
  "(\<not> any_dict_items lc_is_one kvs \<longrightarrow> load_items w r kvs = Inr kvs)"
proof (induction w r t and w r xs and w r kvs rule: load_inner_load_list_load_items.induct)
  case (1 w r kvs)
  have "\<not> lc_is_one kvs \<Longrightarrow> \<not> special kvs"
    by (auto simp: lc_is_one_def special_def is_node_def lc_type_def)
  with 1 show ?case by (auto simp: Reviver_call_other)
qed auto

text \<open>
  C9. A tree in which no mapping, at any depth, has an \<^verbatim>\<open>lc\<close> field equal to 1 is
  returned by \<^verbatim>\<open>_load\<close>, and so by \<^verbatim>\<open>load\<close>, as it is: revival succeeds and the result is
  the input tree. Equality with 1 is Python's \<^verbatim>\<open>==\<close>, as in the source.
\<close>

theorem plain_tree_passthrough:
  assumes "\<not> any_dict lc_is_one t"
  shows "load_inner w r t = Inr t \<and> load tb w t sm vn sfe aim = Inr t"
proof -
  have "load_inner w' r' t = Inr t" for w' :: "('a, 'b, 'c) world" and r'
    using assms passthrough_all(1)[of t w' r'] by simp
  then show ?thesis by (simp add: load_def)
qed

theorem plain_tree_passthrough_witness:
  "load sample_tables sample_world
     (VDict [(''name'', VStr ''x''), (''lc'', VInt 2), (''type'', VStr ''secret''),
             (''id'', VList [VStr ''API_KEY'']),
             (''items'', VList [VInt 1, VNone, VBool True, VFloat (Finite 1),
                               VDict [(''type'', VStr ''constructor''), (''id'', VList [VStr ''a''])]])])
     None None True None
   = Inr (VDict [(''name'', VStr ''x''), (''lc'', VInt 2), (''type'', VStr ''secret''),
             (''id'', VList [VStr ''API_KEY'']),
             (''items'', VList [VInt 1, VNone, VBool True, VFloat (Finite 1),
                               VDict [(''type'', VStr ''constructor''), (''id'', VList [VStr ''a''])]])])"
  using plain_tree_passthrough[of
     "VDict [(''name'', VStr ''x''), (''lc'', VInt 2), (''type'', VStr ''secret''),
             (''id'', VList [VStr ''API_KEY'']),
             (''items'', VList [VInt 1, VNone, VBool True, VFloat (Finite 1),
                               VDict [(''type'', VStr ''constructor''), (''id'', VList [VStr ''a''])]])]"
     sample_world "Reviver_init sample_tables None None True None" sample_tables None None True None]
  by (simp add: lc_is_one_def py_get_def)

section \<open>Not-implemented nodes\<close>








section \<open>The walker: bottom-up order\<close>

lemma no_raw_after_load:
  "(\<forall>v. load_inner w r t = Inr v \<longrightarrow> \<not> any_dict special v)"
  "(\<forall>ys. load_list w r xs = Inr ys \<longrightarrow> \<not> any_dict_list special ys)"
  "(\<forall>kvs'. load_items w r kvs = Inr kvs' \<longrightarrow> \<not> any_dict_items special kvs')"
proof (induction w r t and w r xs and w r kvs rule: load_inner_load_list_load_items.induct)
  case (1 w r kvs)
  show ?case
  proof (intro allI impI)
    fix v assume a: "load_inner w r (VDict kvs) = Inr v"
    then obtain kvs' where l: "load_items w r kvs = Inr kvs'" and c: "Reviver_call w r kvs' = Inr v"
      by (auto split: sum.splits)
    from 1 l have ch: "\<not> any_dict_items special kvs'" by simp
    from Reviver_call_result[OF c] ch show "\<not> any_dict special v" by auto
  qed
next
  case (2 w r xs)
  then show ?case by (auto split: sum.splits)
next
  case (10 w r x xs)
  then show ?case by (auto split: sum.splits)
next
  case (12 w r k v kvs)
  then show ?case by (auto split: sum.splits)
qed auto

lemma load_items_revived:
  assumes "load_items w r kvs = Inr kvs'"
  shows "list_all2 (\<lambda>v v'. load_inner w r v = Inr v' \<and> \<not> any_dict special v')
           (map snd kvs) (map snd kvs')"
proof -
  have "list_all2 (\<lambda>v v'. load_inner w r v = Inr v') (map snd kvs) (map snd kvs')"
    using load_items_shape[OF assms] by simp
  then show ?thesis
    by (rule list_all2_mono) (use no_raw_after_load(1) in blast)
qed

lemma instantiate_kwargs:
  "issubclass_Serializable w cls = Inr True \<Longrightarrow> map_of val ''kwargs'' = Some (VDict kwargs) \<Longrightarrow>
   instantiate w val cls = bindE (construct w cls kwargs) (\<lambda>ob. Inr (VObj ob))"
  by (simp add: instantiate_def bindE_def py_get_def)

text \<open>
  C2. \<^verbatim>\<open>_load\<close> on a mapping revives the values first: the mapping handed to the Reviver
  has the same keys in the same order, each value is the result of \<^verbatim>\<open>_load\<close> on the
  original value, and no revived value holds a mapping that a branch of the Reviver would
  still take. When the revived mapping is a constructor node whose class resolves and
  passes the subclass test, the result is \<^verbatim>\<open>cls(**kwargs)\<close> for the revived \<^verbatim>\<open>kwargs\<close>, the
  result of \<^verbatim>\<open>_load\<close> on the original \<^verbatim>\<open>kwargs\<close>, which hold no raw secret, not-implemented
  or constructor mapping. A list is revived element by element, in order; \<^verbatim>\<open>None\<close>,
  booleans, numbers and strings are returned unchanged.
\<close>

theorem walker_bottom_up:
  "(load_items w r kvs = Inr kvs' \<longrightarrow>
      map fst kvs' = map fst kvs
      \<and> list_all2 (\<lambda>v v'. load_inner w r v = Inr v' \<and> \<not> any_dict special v')
           (map snd kvs) (map snd kvs')
      \<and> load_inner w r (VDict kvs) = Reviver_call w r kvs')
   \<and> (load_items w r kvs = Inr kvs' \<and> is_node ''constructor'' kvs'
        \<and> resolve_class w r kvs' (py_get kvs' ''id'' VNone) = Inr cls
        \<and> issubclass_Serializable w cls = Inr True
        \<and> map_of kvs' ''kwargs'' = Some (VDict kwargs) \<longrightarrow>
      load_inner w r (VDict kvs) = bindE (construct w cls kwargs) (\<lambda>ob. Inr (VObj ob))
      \<and> \<not> any_dict_items special kwargs
      \<and> (\<exists>k0. map_of kvs ''kwargs'' = Some k0 \<and> load_inner w r k0 = Inr (VDict kwargs)))
   \<and> (load_list w r xs = Inr ys \<longrightarrow>
        list_all2 (\<lambda>x y. load_inner w r x = Inr y) xs ys
        \<and> load_inner w r (VList xs) = Inr (VList ys))
   \<and> load_inner w r VNone = Inr VNone
   \<and> load_inner w r (VBool b) = Inr (VBool b)
   \<and> load_inner w r (VInt i) = Inr (VInt i)
   \<and> load_inner w r (VFloat f) = Inr (VFloat f)
   \<and> load_inner w r (VStr s) = Inr (VStr s)"
proof -
  have a: "map fst kvs' = map fst kvs
      \<and> list_all2 (\<lambda>v v'. load_inner w r v = Inr v' \<and> \<not> any_dict special v')
           (map snd kvs) (map snd kvs')
      \<and> load_inner w r (VDict kvs) = Reviver_call w r kvs'"
    if l: "load_items w r kvs = Inr kvs'"
    using load_items_shape[OF l] load_items_revived[OF l] l by simp
  have b: "load_inner w r (VDict kvs) = bindE (construct w cls kwargs) (\<lambda>ob. Inr (VObj ob))
      \<and> \<not> any_dict_items special kwargs
      \<and> (\<exists>k0. map_of kvs ''kwargs'' = Some k0 \<and> load_inner w r k0 = Inr (VDict kwargs))"
    if l: "load_items w r kvs = Inr kvs'" and n: "is_node ''constructor'' kvs'"
      and c: "resolve_class w r kvs' (py_get kvs' ''id'' VNone) = Inr cls"
      and s: "issubclass_Serializable w cls = Inr True"
      and k: "map_of kvs' ''kwargs'' = Some (VDict kwargs)"
  proof -
    have 1: "load_inner w r (VDict kvs) = bindE (construct w cls kwargs) (\<lambda>ob. Inr (VObj ob))"
      using l n c by (simp add: Reviver_call_constructor bindE_def instantiate_kwargs[OF s k])
    from load_items_lookup[OF l, of "''kwargs''"] k
    obtain k0 where 2: "map_of kvs ''kwargs'' = Some k0" "load_inner w r k0 = Inr (VDict kwargs)"
      by (auto split: option.splits)
    from no_raw_after_load(1)[of w r k0] 2(2) have 3: "\<not> any_dict_items special kwargs" by auto
    show ?thesis using 1 2 3 by blast
  qed
  have c: "list_all2 (\<lambda>x y. load_inner w r x = Inr y) xs ys
        \<and> load_inner w r (VList xs) = Inr (VList ys)"
    if l: "load_list w r xs = Inr ys"
    using load_list_shape[OF l] l by simp
  show ?thesis using a b c by simp
qed

theorem walker_bottom_up_witness:
  "load sample_tables sample_world
     (VDict [(''lc'', VInt 1), (''type'', VStr ''constructor''),
             (''id'', VList [VStr ''mypkg'', VStr ''Client'']),
             (''kwargs'', VDict [(''api_key'',
                VDict [(''lc'', VInt 1), (''type'', VStr ''secret''),
                       (''id'', VList [VStr ''API_KEY''])]),
                (''tags'', VList [VStr ''a'', VInt 2])])])
     None (Some [''mypkg'']) True None
   = Inr (VObj (Live ''mypkg:Client''
        [(''api_key'', VStr ''from-env''), (''tags'', VList [VStr ''a'', VInt 2])]))"
proof -
  let ?r = "Reviver_init sample_tables None (Some [''mypkg'']) True None"
  let ?kvs = "[(''lc'', VInt 1), (''type'', VStr ''constructor''),
             (''id'', VList [VStr ''mypkg'', VStr ''Client'']),
             (''kwargs'', VDict [(''api_key'',
                VDict [(''lc'', VInt 1), (''type'', VStr ''secret''),
                       (''id'', VList [VStr ''API_KEY''])]),
                (''tags'', VList [VStr ''a'', VInt 2])])] :: (string \<times> live pyval) list"
  let ?kw = "[(''api_key'', VStr ''from-env''), (''tags'', VList [VStr ''a'', VInt 2])]
               :: (string \<times> live pyval) list"
  let ?kvs' = "[(''lc'', VInt 1), (''type'', VStr ''constructor''),
             (''id'', VList [VStr ''mypkg'', VStr ''Client'']),
             (''kwargs'', VDict ?kw)] :: (string \<times> live pyval) list"
  have s: "load_inner sample_world ?r
             (VDict [(''lc'', VInt 1), (''type'', VStr ''secret''), (''id'', VList [VStr ''API_KEY''])])
           = Inr (VStr ''from-env'')"
    unfolding load_secret_node
    by (simp add: revive_secret_absent Reviver_init_fields sample_world_def)
  have kw: "load_inner sample_world ?r (VDict [(''api_key'',
                VDict [(''lc'', VInt 1), (''type'', VStr ''secret''),
                       (''id'', VList [VStr ''API_KEY''])]),
                (''tags'', VList [VStr ''a'', VInt 2])]) = Inr (VDict ?kw)"
    using s by (simp add: Reviver_call_def py_get_def)
  have l: "load_items sample_world ?r ?kvs = Inr ?kvs'"
    using kw by simp
  have n: "is_node ''constructor'' ?kvs'"
    by (simp add: is_node_def lc_type_def py_get_def)
  have c: "resolve_class sample_world ?r ?kvs' (py_get ?kvs' ''id'' VNone) = Inr ''mypkg:Client''"
    using resolve_class_strs[of "[''mypkg'']" sample_world ?r ?kvs' "''Client''"]
    by (simp add: py_get_def Reviver_init_def DEFAULT_NAMESPACES_def bindE_def sample_world_def)
  have i: "issubclass_Serializable sample_world ''mypkg:Client'' = Inr True"
    by (simp add: sample_world_def)
  have k: "map_of ?kvs' ''kwargs'' = Some (VDict ?kw)" by simp
  from walker_bottom_up[of sample_world ?r ?kvs ?kvs' "''mypkg:Client''" ?kw] l n c i k
  have "load_inner sample_world ?r (VDict ?kvs)
          = bindE (construct sample_world ''mypkg:Client'' ?kw) (\<lambda>ob. Inr (VObj ob))"
    by blast
  then show ?thesis by (simp add: load_def bindE_def sample_world_def)
qed

end
